theory Spec2Isabelle
  imports Complex_Main "HOL-Library.Char_ord" "HOL-Library.List_Lexorder"
    "HOL-Library.Product_Lexorder"
begin

section \<open>Values, dictionaries and faults\<close>

text \<open>
  The weather rows are JSON objects decoded by \<^verbatim>\<open>json.loads\<close>. A field value is a
  JSON scalar: null (Python \<^verbatim>\<open>None\<close>), a boolean, an integer, a float or a string.
  Strings are byte sequences (UTF-8), whose lexicographic order is Python's order on
  \<^verbatim>\<open>str\<close>. Nested arrays and objects are not represented.

  A float is \<^verbatim>\<open>NaN\<close>, an infinity (\<^verbatim>\<open>json.loads\<close> accepts the three words) or a
  finite number, kept as the rational it denotes: only the order and the equality of
  floats are used, and they are those of the numbers denoted.
\<close>

datatype pyfloat = NaN | NegInf | Fin rat | PosInf

datatype pyval =
    PNone | PBool bool | PInt int | PFloat pyfloat | is_PStr: PStr (the_PStr: string)

text \<open>
  The place of a float in the order of \<^verbatim>\<open><\<close>, pairs being compared first component
  first. \<^verbatim>\<open>NaN\<close> has no place: every comparison with it is \<^verbatim>\<open>False\<close>.
\<close>

fun float_rank :: "pyfloat \<Rightarrow> int \<times> rat" where
  "float_rank NegInf = (- 1, 0)"
| "float_rank (Fin x) = (0, x)"
| "float_rank PosInf = (1, 0)"
| "float_rank NaN = (2, 0)"

definition float_le :: "pyfloat \<Rightarrow> pyfloat \<Rightarrow> bool" where
  "float_le a b = (a \<noteq> NaN \<and> b \<noteq> NaN \<and> float_rank a \<le> float_rank b)"

definition float_eq :: "pyfloat \<Rightarrow> pyfloat \<Rightarrow> bool" where
  "float_eq a b = (a \<noteq> NaN \<and> a = b)"

text \<open>
  The number a value is, if it is one: Python compares integers, booleans (\<^verbatim>\<open>True\<close>
  is 1, \<^verbatim>\<open>False\<close> is 0) and floats with each other by their exact values.
\<close>

fun num_of :: "pyval \<Rightarrow> pyfloat option" where
  "num_of (PInt i) = Some (Fin (of_int i))"
| "num_of (PBool b) = Some (Fin (if b then 1 else 0))"
| "num_of (PFloat f) = Some f"
| "num_of PNone = None"
| "num_of (PStr s) = None"

definition is_number :: "pyval \<Rightarrow> bool" where
  "is_number v = (num_of v \<noteq> None)"

definition is_nan :: "pyval \<Rightarrow> bool" where
  "is_nan v = (num_of v = Some NaN)"

text \<open>\<^verbatim>\<open>a == b\<close> on values. \<^verbatim>\<open>NaN == NaN\<close> is \<^verbatim>\<open>False\<close>, \<^verbatim>\<open>1 == 1.0\<close> is \<^verbatim>\<open>True\<close>.\<close>

fun py_eq :: "pyval \<Rightarrow> pyval \<Rightarrow> bool" where
  "py_eq (PStr a) (PStr b) = (a = b)"
| "py_eq PNone PNone = True"
| "py_eq a b =
     (case (num_of a, num_of b) of (Some x, Some y) \<Rightarrow> float_eq x y | _ \<Rightarrow> False)"

text \<open>
  The comparison containers make of their elements: the same object, or \<^verbatim>\<open>==\<close>.
  \<^verbatim>\<open>json.loads\<close> returns one and the same object for every \<^verbatim>\<open>NaN\<close>, so two
  decoded \<^verbatim>\<open>NaN\<close> are the same here although they are not \<^verbatim>\<open>==\<close>.
\<close>

definition py_same :: "pyval \<Rightarrow> pyval \<Rightarrow> bool" where
  "py_same a b = (a = b \<or> py_eq a b)"

text \<open>A Python \<^verbatim>\<open>dict\<close> with string keys, as an association list read by \<open>map_of\<close>.\<close>

type_synonym dict = "(string \<times> pyval) list"

text \<open>
  The instances of Python's \<^verbatim>\<open>Exception\<close> the code can meet: the three built-in ones
  raised by the operations below, and \<open>Fault\<close> for whatever a collaborator (the
  datastore, BigQuery, the JSON codec) raises.
\<close>

datatype exn = TypeError | KeyError | ValueError | Fault string

text \<open>\<^verbatim>\<open>r.get(k)\<close>: the value, or \<^verbatim>\<open>None\<close> for a missing key.\<close>

definition dict_get :: "dict \<Rightarrow> string \<Rightarrow> pyval" where
  "dict_get r k = (case map_of r k of None \<Rightarrow> PNone | Some v \<Rightarrow> v)"

text \<open>\<^verbatim>\<open>d[k]\<close>: the value, or \<^verbatim>\<open>KeyError\<close> for a missing key.\<close>

definition dict_item :: "dict \<Rightarrow> string \<Rightarrow> exn + pyval" where
  "dict_item d k = (case map_of d k of None \<Rightarrow> Inl KeyError | Some v \<Rightarrow> Inr v)"

text \<open>\<^verbatim>\<open>a == b\<close> on dicts: the same keys with the same values, in any order.\<close>

definition dict_eq :: "dict \<Rightarrow> dict \<Rightarrow> bool" where
  "dict_eq a b =
     list_all
       (\<lambda>k. case (map_of a k, map_of b k) of
              (Some u, Some v) \<Rightarrow> py_same u v
            | (None, None) \<Rightarrow> True
            | _ \<Rightarrow> False)
       (map fst a @ map fst b)"

text \<open>
  \<^verbatim>\<open>xs.remove(d)\<close>: deletes the first element equal to \<open>d\<close>; \<^verbatim>\<open>ValueError\<close> when
  there is none.
\<close>

fun list_remove :: "dict \<Rightarrow> dict list \<Rightarrow> exn + dict list" where
  "list_remove d [] = Inl ValueError"
| "list_remove d (x # xs) =
     (if dict_eq x d then Inr xs
      else (case list_remove d xs of Inl e \<Rightarrow> Inl e | Inr ys \<Rightarrow> Inr (x # ys)))"

section \<open>Reading the computed weather data\<close>

text \<open>
  The first loop of \<^verbatim>\<open>get_computed_weather_data\<close>: every payload is decoded and
  appended; a fault of the decoder ends the call. \<open>loads\<close> is \<^verbatim>\<open>json.loads\<close>
  restricted to payloads that hold a JSON object.
\<close>

fun decode_rows :: "('p \<Rightarrow> exn + dict) \<Rightarrow> 'p list \<Rightarrow> exn + dict list" where
  "decode_rows loads [] = Inr []"
| "decode_rows loads (row # rows) =
     (case loads row of
        Inl e \<Rightarrow> Inl e
      | Inr r \<Rightarrow> (case decode_rows loads rows of Inl e \<Rightarrow> Inl e | Inr rs \<Rightarrow> Inr (r # rs)))"

text \<open>
  \<^verbatim>\<open>sorted(sorted_rows, key=lambda r: r.get('time'), reverse=True)\<close>. Python compares
  keys with \<^verbatim>\<open><\<close>, which is defined between two strings and between two numbers and
  raises \<^verbatim>\<open>TypeError\<close> on any other pair of the values modelled here, \<^verbatim>\<open>None\<close>
  against \<^verbatim>\<open>None\<close> included. A list of fewer than two rows is returned without any
  comparison; on a longer list every key is compared at least once and the sort cannot
  finish without comparing keys of different kinds, so it succeeds exactly when all
  keys are strings or all are numbers. The sort is stable, and with
  \<^verbatim>\<open>reverse=True\<close> rows with equal keys keep their order: the list is reversed,
  sorted upwards and reversed again.

  With a \<^verbatim>\<open>NaN\<close> among the keys \<^verbatim>\<open><\<close> is not an order, no comparison raises, and
  the list comes back rearranged in a way that depends on which comparisons the
  interpreter's merge sort happens to make. That rearrangement is the parameter
  \<open>sort_nan\<close>; the language promises of it no more than a permutation of the rows.
\<close>

definition sorted_by_time_reverse ::
  "(dict list \<Rightarrow> dict list) \<Rightarrow> dict list \<Rightarrow> exn + dict list" where
  "sorted_by_time_reverse sort_nan rows =
     (let keys = map (\<lambda>r. dict_get r ''time'') rows in
      if length rows < 2 then Inr rows
      else if list_all is_PStr keys then
        Inr (rev (sort_key (\<lambda>r. the_PStr (dict_get r ''time'')) (rev rows)))
      else if list_all is_number keys then
        (if list_ex is_nan keys then Inr (sort_nan rows)
         else
           Inr (rev (sort_key (\<lambda>r. float_rank (the (num_of (dict_get r ''time''))))
                  (rev rows))))
      else Inl TypeError)"

lemma list_remove_length:
  "list_remove d xs = Inr ys \<Longrightarrow> Suc (length ys) = length xs"
  by (induction xs arbitrary: ys) (auto split: if_splits sum.splits)

text \<open>
  The second loop, which removes from the list it walks. Python's list iterator holds
  an index \<open>i\<close>: each round reads \<^verbatim>\<open>sorted_rows[i]\<close> if \<open>i\<close> is still below the
  current length, and moves to \<open>i + 1\<close>, whatever the body did to the list.
\<close>

function dedup_loop :: "nat \<Rightarrow> pyval \<Rightarrow> dict list \<Rightarrow> exn + dict list" where
  "dedup_loop i previous_ts sorted_rows =
     (if i < length sorted_rows then
        (let d = sorted_rows ! i in
         case dict_item d ''time'' of
           Inl e \<Rightarrow> Inl e
         | Inr t \<Rightarrow>
             if py_eq t previous_ts then
               (case list_remove d sorted_rows of
                  Inl e \<Rightarrow> Inl e
                | Inr rows' \<Rightarrow> dedup_loop (Suc i) previous_ts rows')
             else dedup_loop (Suc i) t sorted_rows)
      else Inr sorted_rows)"
  by pat_completeness auto
termination
proof (relation "measure (\<lambda>(i, previous_ts, sorted_rows). length sorted_rows - i)")
  show "wf (measure (\<lambda>(i, previous_ts, sorted_rows). length sorted_rows - i))"
    by simp
next
  fix i :: nat and previous_ts :: pyval and sorted_rows rows' :: "dict list" and d
  assume "i < length sorted_rows" and "list_remove d sorted_rows = Inr rows'"
  then show "((Suc i, previous_ts, rows'), (i, previous_ts, sorted_rows))
      \<in> measure (\<lambda>(i, previous_ts, sorted_rows). length sorted_rows - i)"
    using list_remove_length [of d sorted_rows rows'] by simp
next
  fix i :: nat and previous_ts t :: pyval and sorted_rows :: "dict list"
  assume "i < length sorted_rows"
  then show "((Suc i, t, sorted_rows), (i, previous_ts, sorted_rows))
      \<in> measure (\<lambda>(i, previous_ts, sorted_rows). length sorted_rows - i)"
    by simp
qed

text \<open>
  \<^verbatim>\<open>get_computed_weather_data\<close>. The datastore's range query is a parameter; it
  returns the payloads or raises. \<open>kind\<close> is \<^verbatim>\<open>self.__kind\<close>, \<^verbatim>\<open>None\<close> when the
  environment variable is missing. No fault is caught.
\<close>

definition get_computed_weather_data ::
  "(dict list \<Rightarrow> dict list)
    \<Rightarrow> (string option \<Rightarrow> string \<Rightarrow> string \<Rightarrow> string \<Rightarrow> string \<Rightarrow> exn + 'p list)
    \<Rightarrow> ('p \<Rightarrow> exn + dict) \<Rightarrow> string option
    \<Rightarrow> string \<Rightarrow> string \<Rightarrow> string \<Rightarrow> bool \<Rightarrow> exn + dict list" where
  "get_computed_weather_data sort_nan get_sharded_entity_range loads kind
       start_date end_date arable_device_name hourly =
     (case get_sharded_entity_range kind ''computed'' arable_device_name start_date end_date of
        Inl e \<Rightarrow> Inl e
      | Inr rows \<Rightarrow>
          (case decode_rows loads rows of
             Inl e \<Rightarrow> Inl e
           | Inr sorted_rows \<Rightarrow>
               (case sorted_by_time_reverse sort_nan sorted_rows of
                  Inl e \<Rightarrow> Inl e
                | Inr sorted_rows \<Rightarrow> dedup_loop 0 PNone sorted_rows)))"


section \<open>Saving the computed data\<close>

text \<open>
  The two stores are collaborators: each is a parameter that answers one call with a
  value or an exception. What a call of \<^verbatim>\<open>save_computed\<close> did to them is the list of
  the store calls it made, in order; a call that raised was made and is in the list.
  Logging is not recorded.
\<close>

datatype call =
    BQ_save string string string dict
  | DS_save_dict_to_entity "string option" string string string

type_synonym bigquery_save = "string \<Rightarrow> string \<Rightarrow> string \<Rightarrow> dict \<Rightarrow> exn + bool"

type_synonym datastore_save = "string option \<Rightarrow> string \<Rightarrow> string \<Rightarrow> string \<Rightarrow> exn + unit"

text \<open>\<^verbatim>\<open>len(data)\<close>: the number of keys.\<close>

definition dict_len :: "dict \<Rightarrow> nat" where
  "dict_len d = length (remdups (map fst d))"

text \<open>
  \<^verbatim>\<open>try: ... except Exception as e: logging.error(...); return False\<close> around a body
  that returns a boolean: an exception of the body becomes the value \<^verbatim>\<open>False\<close>, and
  the calls made before it stay made.
\<close>

definition except_Exception :: "(exn + bool) \<times> call list \<Rightarrow> (exn + bool) \<times> call list" where
  "except_Exception r =
     (case r of (Inl e, calls) \<Rightarrow> (Inr False, calls) | (Inr b, calls) \<Rightarrow> (Inr b, calls))"

text \<open>
  The body of \<^verbatim>\<open>__save_DS\<close>. The arguments of the datastore call are evaluated
  first, so a fault of \<^verbatim>\<open>json.dumps\<close> (the parameter \<open>dumps\<close>) comes before any call.
\<close>

definition save_DS_try ::
  "datastore_save \<Rightarrow> (dict \<Rightarrow> exn + string) \<Rightarrow> string option
    \<Rightarrow> string option \<Rightarrow> string option \<Rightarrow> dict option \<Rightarrow> (exn + bool) \<times> call list" where
  "save_DS_try save_dict_to_entity dumps kind data_type device_name data =
     (if data_type = None \<or> device_name = None \<or> data = None then (Inr False, [])
      else
        (case dumps (the data) of
           Inl e \<Rightarrow> (Inl e, [])
         | Inr s \<Rightarrow>
             (case save_dict_to_entity kind (the device_name) (the data_type) s of
                Inl e \<Rightarrow>
                  (Inl e, [DS_save_dict_to_entity kind (the device_name) (the data_type) s])
              | Inr u \<Rightarrow>
                  (Inr True, [DS_save_dict_to_entity kind (the device_name) (the data_type) s]))))"

definition save_DS ::
  "datastore_save \<Rightarrow> (dict \<Rightarrow> exn + string) \<Rightarrow> string option
    \<Rightarrow> string option \<Rightarrow> string option \<Rightarrow> dict option \<Rightarrow> (exn + bool) \<times> call list" where
  "save_DS save_dict_to_entity dumps kind data_type device_name data =
     except_Exception (save_DS_try save_dict_to_entity dumps kind data_type device_name data)"

text \<open>
  The body of \<^verbatim>\<open>save_computed\<close>. The test
  \<^verbatim>\<open>timestamp is None or name is None or 0 == len(data)\<close> is read from the left and
  stops at the first true part; \<^verbatim>\<open>len(None)\<close> raises \<^verbatim>\<open>TypeError\<close>.
\<close>

definition save_computed_try ::
  "bigquery_save \<Rightarrow> datastore_save \<Rightarrow> (dict \<Rightarrow> exn + string) \<Rightarrow> string option
    \<Rightarrow> string option \<Rightarrow> string option \<Rightarrow> dict option \<Rightarrow> (exn + bool) \<times> call list" where
  "save_computed_try bigquery_save save_dict_to_entity dumps kind timestamp name data =
     (if timestamp = None \<or> name = None then (Inr False, [])
      else
        (case data of
           None \<Rightarrow> (Inl TypeError, [])
         | Some d \<Rightarrow>
             if 0 = dict_len d then (Inr False, [])
             else
               (let bq = BQ_save ''computed'' (the name) (the timestamp) d in
                case bigquery_save ''computed'' (the name) (the timestamp) d of
                  Inl e \<Rightarrow> (Inl e, [bq])
                | Inr saved \<Rightarrow>
                    if \<not> saved then (Inr False, [bq])
                    else
                      (case save_DS save_dict_to_entity dumps kind (Some ''computed'') name data of
                         (Inl e, calls) \<Rightarrow> (Inl e, bq # calls)
                       | (Inr cached, calls) \<Rightarrow>
                           if \<not> cached then (Inr False, bq # calls)
                           else (Inr True, bq # calls)))))"

definition save_computed ::
  "bigquery_save \<Rightarrow> datastore_save \<Rightarrow> (dict \<Rightarrow> exn + string) \<Rightarrow> string option
    \<Rightarrow> string option \<Rightarrow> string option \<Rightarrow> dict option \<Rightarrow> (exn + bool) \<times> call list" where
  "save_computed bigquery_save save_dict_to_entity dumps kind timestamp name data =
     except_Exception
       (save_computed_try bigquery_save save_dict_to_entity dumps kind timestamp name data)"

section \<open>Comparing timestamps\<close>

text \<open>
  Python's \<^verbatim>\<open>a >= b\<close> on the values modelled: defined on two strings and on two
  numbers (\<^verbatim>\<open>False\<close> when one is \<^verbatim>\<open>NaN\<close>), \<^verbatim>\<open>TypeError\<close> otherwise.
\<close>

fun py_ge :: "pyval \<Rightarrow> pyval \<Rightarrow> exn + bool" where
  "py_ge (PStr a) (PStr b) = Inr (b \<le> a)"
| "py_ge a b =
     (case (num_of a, num_of b) of
        (Some x, Some y) \<Rightarrow> Inr (float_le y x)
      | _ \<Rightarrow> Inl TypeError)"

text \<open>\<^verbatim>\<open>A['time'] >= B['time']\<close> evaluates, and to \<^verbatim>\<open>True\<close>.\<close>

definition time_ge :: "dict \<Rightarrow> dict \<Rightarrow> bool" where
  "time_ge A B =
     (case (dict_item A ''time'', dict_item B ''time'') of
        (Inr a, Inr b) \<Rightarrow> py_ge a b = Inr True
      | _ \<Rightarrow> False)"

section \<open>Facts about the list operations and the loop\<close>

lemma dict_eq_refl: "dict_eq d d"
  by (auto simp: dict_eq_def list_all_iff py_same_def map_of_eq_None_iff image_iff
      split: option.splits)

lemma list_remove_set: "list_remove d xs = Inr ys \<Longrightarrow> set ys \<subseteq> set xs"
  by (induction xs arbitrary: ys) (auto split: if_splits sum.splits)


lemma list_remove_member:
  "d \<in> set xs \<Longrightarrow> \<exists>ys. list_remove d xs = Inr ys"
  by (induction xs) (auto simp: dict_eq_refl)


declare dedup_loop.simps [simp del]

lemma dedup_loop_done:
  "\<not> i < length rows \<Longrightarrow> dedup_loop i p rows = Inr rows"
  by (subst dedup_loop.simps) simp

lemma dedup_loop_step:
  "i < length rows \<Longrightarrow> dedup_loop i p rows =
     (case dict_item (rows ! i) ''time'' of
        Inl e \<Rightarrow> Inl e
      | Inr t \<Rightarrow>
          if py_eq t p then
            (case list_remove (rows ! i) rows of
               Inl e \<Rightarrow> Inl e
             | Inr rows' \<Rightarrow> dedup_loop (Suc i) p rows')
          else dedup_loop (Suc i) t rows)"
  by (subst dedup_loop.simps) (simp add: Let_def)

lemma dedup_loop_invariant:
  assumes "dedup_loop i p rows = Inr out"
    and "I rows"
    and step: "\<And>d xs ys. I xs \<Longrightarrow> d \<in> set xs \<Longrightarrow> list_remove d xs = Inr ys \<Longrightarrow> I ys"
  shows "I out"
  using assms(1,2)
proof (induction i p rows rule: dedup_loop.induct)
  case (1 i previous_ts sorted_rows)
  show ?case
  proof (cases "i < length sorted_rows")
    case False
    with "1.prems" show ?thesis by (simp add: dedup_loop_done)
  next
    case True
    note unfold = dedup_loop_step [OF True, of previous_ts]
    from "1.prems"(1) obtain t where t: "dict_item (sorted_rows ! i) ''time'' = Inr t"
      unfolding unfold by (auto split: sum.splits)
    show ?thesis
    proof (cases "py_eq t previous_ts")
      case same: True
      with t "1.prems"(1) obtain rows' where
        r: "list_remove (sorted_rows ! i) sorted_rows = Inr rows'"
        and o: "dedup_loop (Suc i) previous_ts rows' = Inr out"
        unfolding unfold by (auto split: sum.splits)
      from True have "sorted_rows ! i \<in> set sorted_rows" by simp
      with step "1.prems"(2) r have "I rows'" by blast
      with "1.IH"(1) [OF True refl t same r] o show ?thesis by blast
    next
      case diff: False
      with t "1.prems"(1) have "dedup_loop (Suc i) t sorted_rows = Inr out"
        unfolding unfold by simp
      with "1.IH"(2) [OF True refl t diff] "1.prems"(2) show ?thesis by blast
    qed
  qed
qed


lemma dedup_loop_set:
  "dedup_loop i p rows = Inr out \<Longrightarrow> set out \<subseteq> set rows"
  by (rule dedup_loop_invariant [where I = "\<lambda>xs. set xs \<subseteq> set rows"])
    (auto dest: list_remove_set)

lemma dedup_loop_length:
  "dedup_loop i p rows = Inr out \<Longrightarrow> length out \<le> length rows"
  by (rule dedup_loop_invariant [where I = "\<lambda>xs. length xs \<le> length rows"])
    (auto dest: list_remove_length)


lemma dict_item_of_get:
  "dict_get r k \<noteq> PNone \<Longrightarrow> dict_item r k = Inr (dict_get r k)"
  by (simp add: dict_get_def dict_item_def split: option.splits)






lemma sorted_by_time_reverse_set:
  assumes "sorted_by_time_reverse sort_nan rows = Inr srt"
    and "set (sort_nan rows) = set rows"
  shows "set srt = set rows"
  using assms by (auto simp: sorted_by_time_reverse_def Let_def split: if_splits)

lemma sorted_by_time_reverse_set_str:
  assumes "sorted_by_time_reverse sort_nan rows = Inr srt"
    and "list_all (\<lambda>r. is_PStr (dict_get r ''time'')) rows"
  shows "set srt = set rows"
proof -
  from assms(2) have "list_all is_PStr (map (\<lambda>r. dict_get r ''time'') rows)"
    by (simp add: list_all_iff)
  with assms(1) show ?thesis
    by (auto simp: sorted_by_time_reverse_def Let_def split: if_splits)
qed


lemma get_computed_weather_data_Inr:
  assumes "get_computed_weather_data sort_nan store loads kind s e dev hourly = Inr out"
  obtains payloads rows srt where
    "store kind ''computed'' dev s e = Inr payloads"
    "decode_rows loads payloads = Inr rows"
    "sorted_by_time_reverse sort_nan rows = Inr srt"
    "dedup_loop 0 PNone srt = Inr out"
  using assms by (auto simp: get_computed_weather_data_def split: sum.splits)



lemma dedup_loop_returns:
  "\<forall>r\<in>set rows. \<exists>t. dict_item r ''time'' = Inr t \<Longrightarrow> \<exists>out. dedup_loop i p rows = Inr out"
proof (induction i p rows rule: dedup_loop.induct)
  case (1 i previous_ts sorted_rows)
  show ?case
  proof (cases "i < length sorted_rows")
    case False
    then show ?thesis by (simp add: dedup_loop_done)
  next
    case True
    then have mem: "sorted_rows ! i \<in> set sorted_rows" by simp
    with "1.prems" obtain t where t: "dict_item (sorted_rows ! i) ''time'' = Inr t"
      by blast
    show ?thesis
    proof (cases "py_eq t previous_ts")
      case same: True
      from list_remove_member [OF mem] obtain rows' where
        r: "list_remove (sorted_rows ! i) sorted_rows = Inr rows'" by blast
      from list_remove_set [OF r] "1.prems"
      have "\<forall>r\<in>set rows'. \<exists>t. dict_item r ''time'' = Inr t" by blast
      with "1.IH"(1) [OF True refl t same r] t same r show ?thesis
        by (simp add: dedup_loop_step [OF True])
    next
      case diff: False
      with "1.IH"(2) [OF True refl t diff] "1.prems" t show ?thesis
        by (simp add: dedup_loop_step [OF True])
    qed
  qed
qed

lemma get_computed_weather_data_returns:
  assumes "store kind ''computed'' dev s e = Inr payloads"
    and "decode_rows loads payloads = Inr rows"
    and "list_all (\<lambda>r. is_PStr (dict_get r ''time'')) rows"
  shows "\<exists>out. get_computed_weather_data sort_nan store loads kind s e dev hourly = Inr out"
proof -
  from assms(3) have "list_all is_PStr (map (\<lambda>r. dict_get r ''time'') rows)"
    by (simp add: list_all_iff)
  then have "\<exists>srt. sorted_by_time_reverse sort_nan rows = Inr srt"
    by (simp add: sorted_by_time_reverse_def Let_def)
  then obtain srt where srt: "sorted_by_time_reverse sort_nan rows = Inr srt" ..
  have "\<forall>r\<in>set srt. \<exists>t. dict_item r ''time'' = Inr t"
  proof
    fix r assume "r \<in> set srt"
    with sorted_by_time_reverse_set_str [OF srt assms(3)] assms(3)
    have "is_PStr (dict_get r ''time'')"
      by (simp add: list_all_iff)
    then have "dict_get r ''time'' \<noteq> PNone" by auto
    then show "\<exists>t. dict_item r ''time'' = Inr t"
      by (auto dest: dict_item_of_get)
  qed
  then obtain out where "dedup_loop 0 PNone srt = Inr out"
    using dedup_loop_returns by blast
  with assms(1,2) srt show ?thesis
    by (simp add: get_computed_weather_data_def)
qed

lemma output_records_are_fetched:
  assumes "get_computed_weather_data sort_nan store loads kind s e dev hourly = Inr out"
    and perm: "\<And>xs. set (sort_nan xs) = set xs"
  shows "\<exists>payloads rows. store kind ''computed'' dev s e = Inr payloads
           \<and> decode_rows loads payloads = Inr rows \<and> set out \<subseteq> set rows"
proof -
  from assms(1) obtain payloads rows srt where
    "store kind ''computed'' dev s e = Inr payloads" "decode_rows loads payloads = Inr rows"
    and srt: "sorted_by_time_reverse sort_nan rows = Inr srt"
    and out: "dedup_loop 0 PNone srt = Inr out"
    by (rule get_computed_weather_data_Inr)
  moreover from dedup_loop_set [OF out] sorted_by_time_reverse_set [OF srt perm]
  have "set out \<subseteq> set rows" by simp
  ultimately show ?thesis by blast
qed

section \<open>Facts about the save operations\<close>

lemma except_Exception_Inr: "\<exists>b. fst (except_Exception r) = Inr b"
  by (cases r) (auto simp: except_Exception_def split: sum.splits)

lemma save_DS_valid:
  "save_DS ds dumps kind (Some dt) (Some n) (Some d) =
     (case dumps d of
        Inl e \<Rightarrow> (Inr False, [])
      | Inr js \<Rightarrow>
          (case ds kind n dt js of
             Inl e \<Rightarrow> (Inr False, [DS_save_dict_to_entity kind n dt js])
           | Inr u \<Rightarrow> (Inr True, [DS_save_dict_to_entity kind n dt js])))"
  by (simp add: save_DS_def save_DS_try_def except_Exception_def split: sum.splits)


lemma save_computed_valid:
  assumes "0 < dict_len d"
  shows "save_computed bq ds dumps kind (Some t) (Some n) (Some d) =
     (case bq ''computed'' n t d of
        Inl e \<Rightarrow> (Inr False, [BQ_save ''computed'' n t d])
      | Inr saved \<Rightarrow>
          if \<not> saved then (Inr False, [BQ_save ''computed'' n t d])
          else (case dumps d of
              Inl e \<Rightarrow> (Inr False, [BQ_save ''computed'' n t d])
            | Inr js \<Rightarrow>
                (case ds kind n ''computed'' js of
                   Inl e \<Rightarrow> (Inr False,
                     [BQ_save ''computed'' n t d, DS_save_dict_to_entity kind n ''computed'' js])
                 | Inr u \<Rightarrow> (Inr True,
                     [BQ_save ''computed'' n t d, DS_save_dict_to_entity kind n ''computed'' js]))))"
proof (cases "bq ''computed'' n t d")
  case (Inl e)
  with assms show ?thesis
    by (simp add: save_computed_def save_computed_try_def except_Exception_def)
next
  case (Inr saved)
  show ?thesis
  proof (cases saved)
    case False
    with Inr assms show ?thesis
      by (simp add: save_computed_def save_computed_try_def except_Exception_def)
  next
    case True
    with Inr assms show ?thesis
      by (simp add: save_computed_def save_computed_try_def except_Exception_def
          save_DS_valid split: sum.splits)
  qed
qed

lemmas read_defs = get_computed_weather_data_def sorted_by_time_reverse_def dict_get_def
  dict_item_def dict_eq_def py_same_def is_number_def is_nan_def float_le_def float_eq_def
  dedup_loop.simps

text \<open>
  The two rows \<^verbatim>\<open>{"time": NaN}\<close> and \<^verbatim>\<open>{"time": 1.0}\<close>: in whichever order the
  sort leaves them, they are the output, and the first is not \<^verbatim>\<open>>=\<close> the second.
\<close>

lemma nan_pair_never_descending:
  assumes "sort_nan [[(''time'', PFloat NaN)], [(''time'', PFloat (Fin 1))]] = [A, B]"
    and "set [A, B] = {[(''time'', PFloat NaN)], [(''time'', PFloat (Fin 1))]}"
  shows "get_computed_weather_data sort_nan
      (\<lambda>k t d s e. Inr [[(''time'', PFloat NaN)], [(''time'', PFloat (Fin 1))]])
      Inr kind start_date end_date device hourly = Inr [A, B] \<and> \<not> time_ge A B"
proof -
  from assms(2) consider
      "A = [(''time'', PFloat NaN)]" "B = [(''time'', PFloat (Fin 1))]"
    | "A = [(''time'', PFloat (Fin 1))]" "B = [(''time'', PFloat NaN)]"
    | "A = B"
    by (auto simp: doubleton_eq_iff)
  then show ?thesis
  proof cases
    case 1
    with assms(1) show ?thesis by (simp add: read_defs time_ge_def)
  next
    case 2
    with assms(1) show ?thesis by (simp add: read_defs time_ge_def)
  next
    case 3
    with assms(2) show ?thesis by (auto simp: doubleton_eq_iff)
  qed
qed

section \<open>The claims about \<^verbatim>\<open>get_computed_weather_data\<close>\<close>




text \<open>
  C1. Three payloads with the same \<^verbatim>\<open>time\<close>: the loop deletes the second record,
  the list shrinks under the iterator, and the third record is never looked at. The
  output holds two records with the same \<^verbatim>\<open>time\<close>, although the source's own
  comment says that duplicate timestamps have been filtered out.
\<close>

theorem duplicate_times_in_output:
  "get_computed_weather_data sort_nan
      (\<lambda>k t d s e. Inr
        [[(''time'', PStr ''2024-01-02T00:05''), (''t'', PInt 10)],
         [(''time'', PStr ''2024-01-02T00:05''), (''t'', PInt 99)],
         [(''time'', PStr ''2024-01-02T00:05''), (''t'', PInt 7)]])
      Inr kind start_date end_date device hourly
     = Inr [[(''time'', PStr ''2024-01-02T00:05''), (''t'', PInt 10)],
            [(''time'', PStr ''2024-01-02T00:05''), (''t'', PInt 7)]]"
  by (simp add: read_defs)

text \<open>
  C3. Two timestamps with two records each: after the deletion of the second record of
  the newer timestamp the iterator steps over the first record of the older one, so
  the second record of the older timestamp is compared with the newer timestamp and
  kept. The output keeps, for \<^verbatim>\<open>2024-01-01T00:00\<close>, a record that is not the first
  one at that timestamp in the sorted order. No record of the output is a mixture of
  two fetched records.
\<close>

theorem later_duplicate_kept:
  "get_computed_weather_data sort_nan
      (\<lambda>k t d s e. Inr
        [[(''time'', PStr ''2024-01-01T00:00''), (''t'', PInt 3)],
         [(''time'', PStr ''2024-01-02T00:05''), (''t'', PInt 1)],
         [(''time'', PStr ''2024-01-01T00:00''), (''t'', PInt 4)],
         [(''time'', PStr ''2024-01-02T00:05''), (''t'', PInt 2)]])
      Inr kind start_date end_date device hourly
     = Inr [[(''time'', PStr ''2024-01-02T00:05''), (''t'', PInt 1)],
            [(''time'', PStr ''2024-01-01T00:00''), (''t'', PInt 3)],
            [(''time'', PStr ''2024-01-01T00:00''), (''t'', PInt 4)]]"
  by (simp add: read_defs)

text \<open>
  C4. When the store returns the three payloads of the scenario, the result has two
  records, newest first: the record of \<^verbatim>\<open>2024-01-02T00:05\<close> with \<^verbatim>\<open>t = 10\<close>
  (the first of the two in the store's order, as the sort is stable), then the record
  of \<^verbatim>\<open>2024-01-01T00:00\<close> with \<^verbatim>\<open>t = 5\<close>.
\<close>

theorem scenario_three_payloads:
  assumes "store kind ''computed'' dev s e = Inr [p1, p2, p3]"
    and "loads p1 = Inr [(''time'', PStr ''2024-01-02T00:05''), (''t'', PInt 10)]"
    and "loads p2 = Inr [(''time'', PStr ''2024-01-01T00:00''), (''t'', PInt 5)]"
    and "loads p3 = Inr [(''time'', PStr ''2024-01-02T00:05''), (''t'', PInt 99)]"
  shows "get_computed_weather_data sort_nan store loads kind s e dev hourly
     = Inr [[(''time'', PStr ''2024-01-02T00:05''), (''t'', PInt 10)],
            [(''time'', PStr ''2024-01-01T00:00''), (''t'', PInt 5)]]"
  using assms by (simp add: read_defs)

theorem scenario_three_payloads_witness:
  "get_computed_weather_data (\<lambda>rows. rows)
      (\<lambda>k t d s e. Inr
        [[(''time'', PStr ''2024-01-02T00:05''), (''t'', PInt 10)],
         [(''time'', PStr ''2024-01-01T00:00''), (''t'', PInt 5)],
         [(''time'', PStr ''2024-01-02T00:05''), (''t'', PInt 99)]])
      Inr (Some ''Weather'') ''2024-01-01'' ''2024-01-02'' ''A000001'' True
     = Inr [[(''time'', PStr ''2024-01-02T00:05''), (''t'', PInt 10)],
            [(''time'', PStr ''2024-01-01T00:00''), (''t'', PInt 5)]]"
  using scenario_three_payloads [where store = "\<lambda>k t d s e. Inr
        [[(''time'', PStr ''2024-01-02T00:05''), (''t'', PInt 10)],
         [(''time'', PStr ''2024-01-01T00:00''), (''t'', PInt 5)],
         [(''time'', PStr ''2024-01-02T00:05''), (''t'', PInt 99)]]"
       and kind = "Some ''Weather''" and dev = "''A000001''" and s = "''2024-01-01''"
       and e = "''2024-01-02''" and loads = Inr and hourly = True
       and sort_nan = "\<lambda>rows. rows"]
  by simp

text \<open>
  C5. When the store returns no payload, the result is the empty list, and no fault.
\<close>

theorem empty_store_empty_result:
  assumes "store kind ''computed'' dev s e = Inr []"
  shows "get_computed_weather_data sort_nan store loads kind s e dev hourly = Inr []"
  using assms
  by (simp add: get_computed_weather_data_def sorted_by_time_reverse_def dedup_loop_done)

theorem empty_store_empty_result_witness:
  "get_computed_weather_data (\<lambda>rows. rows) (\<lambda>k t d s e. Inr [])
     (\<lambda>p :: string. Inl (Fault ''unused''))
     (Some ''Weather'') ''2024-01-01'' ''2024-01-02'' ''A000001'' True = Inr []"
  using empty_store_empty_result [where store = "\<lambda>k t d s e. Inr []"
      and kind = "Some ''Weather''" and dev = "''A000001''" and s = "''2024-01-01''"
      and e = "''2024-01-02''" and loads = "\<lambda>p :: string. Inl (Fault ''unused'')"
      and hourly = True and sort_nan = "\<lambda>rows. rows"]
  by simp

text \<open>
  C6. When the store's payloads decode and one of the records has no \<^verbatim>\<open>time\<close> key,
  the call raises: \<^verbatim>\<open>KeyError\<close> in the second loop when that record is the only
  one, \<^verbatim>\<open>TypeError\<close> in the sort otherwise.
\<close>

theorem missing_time_raises:
  assumes "store kind ''computed'' dev s e = Inr payloads"
    and "decode_rows loads payloads = Inr rows"
    and "r \<in> set rows" and "map_of r ''time'' = None"
  shows "get_computed_weather_data sort_nan store loads kind s e dev hourly
     = (if length rows < 2 then Inl KeyError else Inl TypeError)"
proof (cases "length rows < 2")
  case True
  with assms(3) have rows: "rows = [r]"
    by (cases rows) auto
  have "dedup_loop 0 PNone [r] = Inl KeyError"
    using assms(4) by (simp add: dedup_loop_step dict_item_def)
  with assms(1,2) rows show ?thesis
    by (simp add: get_computed_weather_data_def sorted_by_time_reverse_def)
next
  case False
  from assms(4) have "dict_get r ''time'' = PNone"
    by (simp add: dict_get_def)
  with assms(3) have "\<not> list_all is_PStr (map (\<lambda>r. dict_get r ''time'') rows)"
    and "\<not> list_all is_number (map (\<lambda>r. dict_get r ''time'') rows)"
    by (force simp: list_all_iff is_number_def)+
  with False have "sorted_by_time_reverse sort_nan rows = Inl TypeError"
    by (simp add: sorted_by_time_reverse_def)
  with assms(1,2) False show ?thesis
    by (simp add: get_computed_weather_data_def)
qed

theorem missing_time_raises_witness:
  "get_computed_weather_data (\<lambda>rows. rows) (\<lambda>k t d s e. Inr [[(''t'', PInt 5)]]) Inr
     (Some ''Weather'') ''2024-01-01'' ''2024-01-02'' ''A000001'' True = Inl KeyError
   \<and> get_computed_weather_data (\<lambda>rows. rows)
     (\<lambda>k t d s e. Inr [[(''time'', PStr ''2024-01-01T00:00''), (''t'', PInt 5)], [(''t'', PInt 6)]]) Inr
     (Some ''Weather'') ''2024-01-01'' ''2024-01-02'' ''A000001'' True = Inl TypeError"
  using
    missing_time_raises [where store = "\<lambda>k t d s e. Inr [[(''t'', PInt 5)]]"
      and kind = "Some ''Weather''" and dev = "''A000001''" and s = "''2024-01-01''"
      and e = "''2024-01-02''" and payloads = "[[(''t'', PInt 5)]]" and loads = Inr
      and rows = "[[(''t'', PInt 5)]]" and r = "[(''t'', PInt 5)]" and hourly = True
      and sort_nan = "\<lambda>rows. rows"]
    missing_time_raises [where store = "\<lambda>k t d s e. Inr
        [[(''time'', PStr ''2024-01-01T00:00''), (''t'', PInt 5)], [(''t'', PInt 6)]]"
      and kind = "Some ''Weather''" and dev = "''A000001''" and s = "''2024-01-01''"
      and e = "''2024-01-02''"
      and payloads = "[[(''time'', PStr ''2024-01-01T00:00''), (''t'', PInt 5)], [(''t'', PInt 6)]]"
      and loads = Inr
      and rows = "[[(''time'', PStr ''2024-01-01T00:00''), (''t'', PInt 5)], [(''t'', PInt 6)]]"
      and r = "[(''t'', PInt 6)]" and hourly = True and sort_nan = "\<lambda>rows. rows"]
  by simp

text \<open>
  C9. The parameter \<^verbatim>\<open>hourly\<close> is not read: both values give the same result.
\<close>

theorem hourly_ignored:
  "get_computed_weather_data sort_nan store loads kind s e dev True
     = get_computed_weather_data sort_nan store loads kind s e dev False"
  by (simp add: get_computed_weather_data_def)

section \<open>The claims about \<^verbatim>\<open>save_computed\<close>\<close>

text \<open>
  C7. \<^verbatim>\<open>save_computed\<close> never ends in an exception, whatever its arguments and
  whatever the two stores and the encoder do. When the arguments are valid and BigQuery
  raises, the result is \<^verbatim>\<open>False\<close> after that one call; when BigQuery saved and the
  datastore raises, the result is \<^verbatim>\<open>False\<close> after the two calls. Exceptions are the
  instances of \<^verbatim>\<open>Exception\<close>, which is what the handlers name.
\<close>

theorem save_computed_catches:
  "(\<exists>b. fst (save_computed bq ds dumps kind timestamp name data) = Inr b)
   \<and> (0 < dict_len d \<and> bq ''computed'' n t d = Inl e \<longrightarrow>
        save_computed bq ds dumps kind (Some t) (Some n) (Some d)
          = (Inr False, [BQ_save ''computed'' n t d]))
   \<and> (0 < dict_len d \<and> bq ''computed'' n t d = Inr True \<and> dumps d = Inr js
        \<and> ds kind n ''computed'' js = Inl e \<longrightarrow>
        save_computed bq ds dumps kind (Some t) (Some n) (Some d)
          = (Inr False, [BQ_save ''computed'' n t d, DS_save_dict_to_entity kind n ''computed'' js]))"
proof (intro conjI impI)
  show "\<exists>b. fst (save_computed bq ds dumps kind timestamp name data) = Inr b"
    unfolding save_computed_def by (rule except_Exception_Inr)
next
  assume "0 < dict_len d \<and> bq ''computed'' n t d = Inl e"
  then show "save_computed bq ds dumps kind (Some t) (Some n) (Some d)
      = (Inr False, [BQ_save ''computed'' n t d])"
    by (simp add: save_computed_valid)
next
  assume "0 < dict_len d \<and> bq ''computed'' n t d = Inr True \<and> dumps d = Inr js
        \<and> ds kind n ''computed'' js = Inl e"
  then show "save_computed bq ds dumps kind (Some t) (Some n) (Some d)
      = (Inr False, [BQ_save ''computed'' n t d, DS_save_dict_to_entity kind n ''computed'' js])"
    by (simp add: save_computed_valid)
qed

theorem save_computed_catches_witness:
  "save_computed (\<lambda>table n t d. Inl (Fault ''bigquery is down'')) (\<lambda>k n p js. Inr ())
       (\<lambda>d. Inr ''{}'') (Some ''Weather'') (Some ''2024-01-02T00:05'') (Some ''d1'')
       (Some [(''t'', PInt 1)])
     = (Inr False, [BQ_save ''computed'' ''d1'' ''2024-01-02T00:05'' [(''t'', PInt 1)]])
   \<and> save_computed (\<lambda>table n t d. Inr True) (\<lambda>k n p js. Inl (Fault ''datastore is down''))
       (\<lambda>d. Inr ''{}'') (Some ''Weather'') (Some ''2024-01-02T00:05'') (Some ''d1'')
       (Some [(''t'', PInt 1)])
     = (Inr False, [BQ_save ''computed'' ''d1'' ''2024-01-02T00:05'' [(''t'', PInt 1)],
          DS_save_dict_to_entity (Some ''Weather'') ''d1'' ''computed'' ''{}''])"
proof -
  have len: "0 < dict_len [(''t'', PInt 1)]"
    by (simp add: dict_len_def)
  have "0 < dict_len [(''t'', PInt 1)] \<and>
      (\<lambda>table n t d. Inl (Fault ''bigquery is down'') :: exn + bool)
        ''computed'' ''d1'' ''2024-01-02T00:05'' [(''t'', PInt 1)] = Inl (Fault ''bigquery is down'')"
    using len by simp
  with save_computed_catches [of "\<lambda>table n t d. Inl (Fault ''bigquery is down'')"
      "\<lambda>k n p js. Inr ()" "\<lambda>d. Inr ''{}''" "Some ''Weather''" None None None
      "[(''t'', PInt 1)]" "''d1''" "''2024-01-02T00:05''" "Fault ''bigquery is down''" "''{}''"]
  have bq: "save_computed (\<lambda>table n t d. Inl (Fault ''bigquery is down'')) (\<lambda>k n p js. Inr ())
       (\<lambda>d. Inr ''{}'') (Some ''Weather'') (Some ''2024-01-02T00:05'') (Some ''d1'')
       (Some [(''t'', PInt 1)])
     = (Inr False, [BQ_save ''computed'' ''d1'' ''2024-01-02T00:05'' [(''t'', PInt 1)]])"
    by blast
  have "0 < dict_len [(''t'', PInt 1)] \<and>
      (\<lambda>table n t d. Inr True :: exn + bool)
        ''computed'' ''d1'' ''2024-01-02T00:05'' [(''t'', PInt 1)] = Inr True \<and>
      (\<lambda>d. Inr ''{}'' :: exn + string) [(''t'', PInt 1)] = Inr ''{}'' \<and>
      (\<lambda>k n p js. Inl (Fault ''datastore is down'') :: exn + unit)
        (Some ''Weather'') ''d1'' ''computed'' ''{}'' = Inl (Fault ''datastore is down'')"
    using len by simp
  with save_computed_catches [of "\<lambda>table n t d. Inr True"
      "\<lambda>k n p js. Inl (Fault ''datastore is down'')" "\<lambda>d. Inr ''{}''" "Some ''Weather''"
      None None None "[(''t'', PInt 1)]" "''d1''" "''2024-01-02T00:05''"
      "Fault ''datastore is down''" "''{}''"]
  have ds: "save_computed (\<lambda>table n t d. Inr True) (\<lambda>k n p js. Inl (Fault ''datastore is down''))
       (\<lambda>d. Inr ''{}'') (Some ''Weather'') (Some ''2024-01-02T00:05'') (Some ''d1'')
       (Some [(''t'', PInt 1)])
     = (Inr False, [BQ_save ''computed'' ''d1'' ''2024-01-02T00:05'' [(''t'', PInt 1)],
          DS_save_dict_to_entity (Some ''Weather'') ''d1'' ''computed'' ''{}''])"
    by blast
  from bq ds show ?thesis by (rule conjI)
qed

text \<open>
  C8. \<^verbatim>\<open>save_computed(timestamp=None, name="d1", data={"t": 1})\<close> returns
  \<^verbatim>\<open>False\<close> and calls neither store, whatever the stores would have answered.
\<close>

theorem save_computed_no_timestamp:
  "save_computed bq ds dumps kind None (Some ''d1'') (Some [(''t'', PInt 1)]) = (Inr False, [])"
  by (simp add: save_computed_def save_computed_try_def except_Exception_def)

text \<open>
  C10. With valid arguments: when the BigQuery save answers \<^verbatim>\<open>False\<close>, the result is
  \<^verbatim>\<open>False\<close> and the BigQuery call is the only store call; and a datastore call is
  made only when the BigQuery save answered \<^verbatim>\<open>True\<close>, as the second call, after it.
\<close>

theorem datastore_write_only_after_bigquery:
  assumes "save_computed bq ds dumps kind (Some t) (Some n) (Some d) = (r, calls)"
    and "0 < dict_len d"
  shows "(bq ''computed'' n t d = Inr False \<longrightarrow>
            r = Inr False \<and> calls = [BQ_save ''computed'' n t d])
     \<and> (\<forall>k dev prop js. DS_save_dict_to_entity k dev prop js \<in> set calls \<longrightarrow>
            bq ''computed'' n t d = Inr True
            \<and> calls = [BQ_save ''computed'' n t d, DS_save_dict_to_entity k dev prop js])"
proof (cases "bq ''computed'' n t d")
  case (Inl e)
  with assms show ?thesis
    by (auto simp: save_computed_valid)
next
  case (Inr saved)
  show ?thesis
  proof (cases saved)
    case False
    with Inr assms show ?thesis
      by (auto simp: save_computed_valid)
  next
    case True
    with Inr assms show ?thesis
      by (auto simp: save_computed_valid split: sum.splits)
  qed
qed

theorem datastore_write_only_after_bigquery_witness:
  "save_computed (\<lambda>table n t d. Inr False) (\<lambda>k n p js. Inr ())
       (\<lambda>d. Inr ''{}'') (Some ''Weather'') (Some ''2024-01-02T00:05'') (Some ''d1'')
       (Some [(''t'', PInt 1)])
     = (Inr False, [BQ_save ''computed'' ''d1'' ''2024-01-02T00:05'' [(''t'', PInt 1)]])"
proof -
  obtain r calls where run: "save_computed (\<lambda>table n t d. Inr False) (\<lambda>k n p js. Inr ())
       (\<lambda>d. Inr ''{}'') (Some ''Weather'') (Some ''2024-01-02T00:05'') (Some ''d1'')
       (Some [(''t'', PInt 1)]) = (r, calls)"
    by (rule prod.exhaust)
  have len: "0 < dict_len [(''t'', PInt 1)]"
    by (simp add: dict_len_def)
  from datastore_write_only_after_bigquery [OF run len]
  have "r = Inr False \<and> calls = [BQ_save ''computed'' ''d1'' ''2024-01-02T00:05'' [(''t'', PInt 1)]]"
    by blast
  with run show ?thesis by simp
qed

end
